theory Spec2Isabelle
  imports Complex_Main "HOL-Library.Sublist" "HOL-Library.AList"
begin

section \<open>Elastic DCA engine: the decision core of \<open>apps/server/main.py\<close>\<close>

text \<open>
  The embedding follows the Python source function by function.

  \<^item> Python floats are modelled as \<open>real\<close>: comparisons and sums are exact, rounding,
    infinities and NaN are outside the model.
  \<^item> Python strings are \<open>string\<close> (lists of 8-bit characters).
  \<^item> The dictionaries \<open>buy_exec_map\<close> and \<open>sell_exec_map\<close> are association lists keyed
    by the integer whose decimal rendering \<open>str(idx)\<close> is the Python key; every key the
    program writes has that form. \<open>AList.update\<close> keeps the position of an existing
    key and appends a new one, as a Python dict does.
  \<^item> The module globals \<open>state\<close> and \<open>price_history\<close> are the record \<open>Engine\<close>, passed
    in and returned.
  \<^item> What a handler reads from outside (the clock, \<open>uuid4\<close>) is the record \<open>Env\<close>.
  \<^item> \<open>save_state\<close> writes a file and swallows its own failures; it does not change
    the engine and is left out.
\<close>

subsection \<open>Data models\<close>

record GridRow =
  index :: int
  dollar :: real
  lots :: real
  alert :: bool

record Position =
  ticket :: int
  symbol :: string
  type :: string
  volume :: real
  price :: real
  profit :: real
  comment :: string

record TickData =
  account_id :: string
  equity :: real
  balance :: real
  tick_symbol :: string
  ask :: real
  bid :: real
  positions :: "Position list"

text \<open>
  \<open>RowExecStats\<close>: the fields \<open>index\<close>, \<open>lots\<close> and \<open>profit\<close> carry the prefix \<open>ex_\<close>,
  since \<open>GridRow\<close> and \<open>Position\<close> own those names.
\<close>

record RowExecStats =
  ex_index :: int
  entry_price :: real
  ex_lots :: real
  ex_profit :: real
  timestamp :: string
  cumulative_lots :: real
  cumulative_profit :: real

type_synonym exec_map = "(int \<times> RowExecStats) list"

record RuntimeState =
  buy_on :: bool
  sell_on :: bool
  cyclic_on :: bool
  buy_id :: string
  sell_id :: string
  buy_is_closing :: bool
  sell_is_closing :: bool
  buy_hedge_triggered :: bool
  sell_hedge_triggered :: bool
  buy_waiting_limit :: bool
  sell_waiting_limit :: bool
  buy_start_ref :: real
  sell_start_ref :: real
  buy_exec_map :: exec_map
  sell_exec_map :: exec_map
  pending_actions :: "string list"
  current_price :: real
  current_ask :: real
  current_bid :: real
  price_direction :: string
  error_status :: string
  buy_last_order_sent_ts :: real
  sell_last_order_sent_ts :: real

record UserSettings =
  buy_limit_price :: real
  sell_limit_price :: real
  buy_tp_type :: string
  buy_tp_value :: real
  sell_tp_type :: string
  sell_tp_value :: real
  buy_hedge_value :: real
  sell_hedge_value :: real
  rows_buy :: "GridRow list"
  rows_sell :: "GridRow list"

text \<open>
  \<open>Engine\<close> holds the fields of \<open>SystemState\<close> and the global deque \<open>price_history\<close>,
  whose entries \<open>{"mid": m, "ts": t}\<close> are the pairs \<open>(m, t)\<close>, oldest first.
\<close>

record Engine =
  settings :: UserSettings
  runtime :: RuntimeState
  last_update_ts :: string
  price_history :: "(real \<times> real) list"

text \<open>
  \<open>now_ts\<close> is the reading of \<open>time.time()\<close> of a tick, \<open>now_iso\<close> stands for the
  readings of \<open>datetime.now().isoformat()\<close> (one value for the whole tick), and
  \<open>uuid_buy\<close>, \<open>uuid_sell\<close> are the \<open>uuid4().hex\<close> strings that \<open>get_hash\<close> draws for either
  side; no path of a tick mints two ids for one side.
\<close>

record Env =
  now_ts :: real
  now_iso :: string
  uuid_buy :: string
  uuid_sell :: string

text \<open>The reply dictionaries of the tick endpoint.\<close>

datatype Action =
  WAIT "string option"
  | BUY real string bool
  | SELL real string bool
  | CLOSE_ALL string

definition PRICE_HISTORY_LEN :: nat where
  "PRICE_HISTORY_LEN = 100"

definition EXTERNAL_CLOSE_GRACE_PERIOD :: real where
  "EXTERNAL_CLOSE_GRACE_PERIOD = 5.0"

definition default_settings :: UserSettings where
  "default_settings =
     \<lparr>buy_limit_price = 0, sell_limit_price = 0,
      buy_tp_type = ''equity_pct'', buy_tp_value = 0,
      sell_tp_type = ''equity_pct'', sell_tp_value = 0,
      buy_hedge_value = 0, sell_hedge_value = 0,
      rows_buy = [], rows_sell = []\<rparr>"

definition default_runtime :: RuntimeState where
  "default_runtime =
     \<lparr>buy_on = False, sell_on = False, cyclic_on = False,
      buy_id = [], sell_id = [],
      buy_is_closing = False, sell_is_closing = False,
      buy_hedge_triggered = False, sell_hedge_triggered = False,
      buy_waiting_limit = False, sell_waiting_limit = False,
      buy_start_ref = 0, sell_start_ref = 0,
      buy_exec_map = [], sell_exec_map = [],
      pending_actions = [],
      current_price = 0, current_ask = 0, current_bid = 0,
      price_direction = ''neutral'',
      error_status = [],
      buy_last_order_sent_ts = 0, sell_last_order_sent_ts = 0\<rparr>"

definition initial_engine :: Engine where
  "initial_engine =
     \<lparr>settings = default_settings, runtime = default_runtime,
      last_update_ts = [], price_history = []\<rparr>"

subsection \<open>Strings: containment, decimal rendering, the trade comment pattern\<close>

text \<open>\<open>str_in sub s\<close> is Python's \<open>sub in s\<close> on strings.\<close>

fun str_in :: "string \<Rightarrow> string \<Rightarrow> bool" where
  "str_in sub [] = (sub = [])"
| "str_in sub (c # cs) = (prefix sub (c # cs) \<or> str_in sub cs)"

definition digit_char :: "nat \<Rightarrow> char" where
  "digit_char d = ''0123456789'' ! d"

text \<open>\<open>str_nat\<close> and \<open>str_int\<close> are \<open>str\<close> (and the \<open>{..}\<close> of an f-string) on integers.\<close>

fun str_nat :: "nat \<Rightarrow> string" where
  "str_nat n = (if n < 10 then [digit_char n] else str_nat (n div 10) @ [digit_char (n mod 10)])"

declare str_nat.simps [simp del]

definition str_int :: "int \<Rightarrow> string" where
  "str_int i = (if i < 0 then CHR ''-'' # str_nat (nat (- i)) else str_nat (nat i))"

definition is_hex :: "char \<Rightarrow> bool" where
  "is_hex c = (c \<in> set ''0123456789abcdefABCDEF'')"

definition is_digit :: "char \<Rightarrow> bool" where
  "is_digit c = (c \<in> set ''0123456789'')"

text \<open>
  \<open>strip_newline\<close>: the \<open>$\<close> of a Python pattern matches at the end of the string and
  also just before a newline that ends the string.
\<close>

definition strip_newline :: "string \<Rightarrow> string" where
  "strip_newline s = (if s \<noteq> [] \<and> last s = CHR 0x0A then butlast s else s)"

text \<open>
  \<open>TRADE_ID_PATTERN.match(c)\<close> for the pattern
  \<^verbatim>\<open>^(sell|buy)_[0-9a-fA-F]{8}_idx\d+$\<close>:
  the side and an underscore, eight hex digits of either case, \<open>_idx\<close>, one or more
  decimal digits, the end.
\<close>

definition strip_side :: "string \<Rightarrow> string option" where
  "strip_side c =
     (if prefix ''sell_'' c then Some (drop 5 c)
      else if prefix ''buy_'' c then Some (drop 4 c)
      else None)"

definition TRADE_ID_PATTERN_match :: "string \<Rightarrow> bool" where
  "TRADE_ID_PATTERN_match c =
     (case strip_side c of
        None \<Rightarrow> False
      | Some r \<Rightarrow>
          8 \<le> length r \<and> list_all is_hex (take 8 r) \<and> prefix ''_idx'' (drop 8 r) \<and>
          strip_newline (drop 12 r) \<noteq> [] \<and> list_all is_digit (strip_newline (drop 12 r)))"

text \<open>
  The grammar as the specification words it:
  \<^verbatim>\<open>^(buy|sell)_[0-9a-f]{8}_idx\d+$\<close>, with lowercase hex digits only.
\<close>

definition is_lower_hex :: "char \<Rightarrow> bool" where
  "is_lower_hex c = (c \<in> set ''0123456789abcdef'')"

definition spec_grammar_match :: "string \<Rightarrow> bool" where
  "spec_grammar_match c =
     (case strip_side c of
        None \<Rightarrow> False
      | Some r \<Rightarrow>
          8 \<le> length r \<and> list_all is_lower_hex (take 8 r) \<and> prefix ''_idx'' (drop 8 r) \<and>
          strip_newline (drop 12 r) \<noteq> [] \<and> list_all is_digit (strip_newline (drop 12 r)))"

text \<open>
  \<open>split_idx acc s\<close> is \<open>s.split("_idx")\<close>, with \<open>acc\<close> the reversed characters of the
  piece being read.
\<close>

fun split_idx :: "string \<Rightarrow> string \<Rightarrow> string list" where
  "split_idx acc [] = [rev acc]"
| "split_idx acc (c # cs) =
     (if prefix ''_idx'' (c # cs) then rev acc # split_idx [] (drop 3 cs)
      else split_idx (c # acc) cs)"

text \<open>
  \<open>py_int\<close> is \<open>int(s)\<close> on the strings that reach it: decimal digits, a newline at the
  end stripped as whitespace. \<open>None\<close> is the \<open>ValueError\<close>, which the caller swallows.
  The interpreter's bound on the length of a decimal literal, whose \<open>ValueError\<close> the
  caller swallows as well, is not modelled.
\<close>

definition digit_val :: "char \<Rightarrow> int" where
  "digit_val c = int (of_char c) - 48"

definition py_int :: "string \<Rightarrow> int option" where
  "py_int s =
     (let d = strip_newline s in
      if d \<noteq> [] \<and> list_all is_digit d
      then Some (foldl (\<lambda>a c. 10 * a + digit_val c) 0 d)
      else None)"

text \<open>\<open>get_hash(side)\<close>, with \<open>u\<close> the \<open>uuid4().hex\<close> drawn.\<close>

definition get_hash :: "string \<Rightarrow> string \<Rightarrow> string" where
  "get_hash side u = side @ ''_'' @ take 8 u"

subsection \<open>Grid geometry\<close>

text \<open>
  \<open>calculate_grid_level_price\<close> reads the anchor and the layer table of the side from the
  global state; \<open>range(level_index + 1)\<close> is the list \<open>[0..level_index]\<close>.
\<close>

definition calculate_grid_level_price :: "Engine \<Rightarrow> string \<Rightarrow> int \<Rightarrow> real" where
  "calculate_grid_level_price e side level_index =
     (if side = ''buy'' then
        foldl (\<lambda>ref i. if i < int (length (rows_buy (settings e)))
                        then ref - dollar (rows_buy (settings e) ! nat i) else ref)
          (buy_start_ref (runtime e)) [0..level_index]
      else
        foldl (\<lambda>ref i. if i < int (length (rows_sell (settings e)))
                        then ref + dollar (rows_sell (settings e) ! nat i) else ref)
          (sell_start_ref (runtime e)) [0..level_index])"

subsection \<open>Position reconciler\<close>

definition conflict_buy :: "int \<Rightarrow> string" where
  "conflict_buy t =
     ''CRITICAL: Identity Conflict. Unknown Buy trade '' @ str_int t @ '' detected.''"

definition conflict_sell :: "int \<Rightarrow> string" where
  "conflict_sell t =
     ''CRITICAL: Identity Conflict. Unknown Sell trade '' @ str_int t @ '' detected.''"

definition new_stats :: "int \<Rightarrow> real \<Rightarrow> real \<Rightarrow> real \<Rightarrow> string \<Rightarrow> RowExecStats" where
  "new_stats idx p l pr ts =
     \<lparr>ex_index = idx, entry_price = p, ex_lots = l, ex_profit = pr, timestamp = ts,
      cumulative_lots = 0, cumulative_profit = 0\<rparr>"

text \<open>
  \<open>record_side\<close> is one of the two \<open>if\<close> statements of the \<open>try\<close> block of
  \<open>update_exec_stats\<close>: \<open>None\<close> is the exception \<open>int\<close> raises, which ends the block.
\<close>

definition record_side ::
  "string \<Rightarrow> string \<Rightarrow> string \<Rightarrow> Position \<Rightarrow> exec_map \<Rightarrow> exec_map option" where
  "record_side kind sid stamp p m =
     (if type p = kind \<and> str_in sid (comment p) then
        (case split_idx [] (comment p) of
           [a, b] \<Rightarrow>
             (case py_int b of
                None \<Rightarrow> None
              | Some idx \<Rightarrow>
                  Some (AList.update idx (new_stats idx (price p) (volume p) (profit p) stamp) m))
         | _ \<Rightarrow> Some m)
      else Some m)"

definition record_position ::
  "RuntimeState \<Rightarrow> string \<Rightarrow> Position \<Rightarrow> exec_map \<times> exec_map \<Rightarrow> exec_map \<times> exec_map" where
  "record_position rt stamp p maps =
     (case record_side ''BUY'' (buy_id rt) stamp p (fst maps) of
        None \<Rightarrow> maps
      | Some bm \<Rightarrow>
          (case record_side ''SELL'' (sell_id rt) stamp p (snd maps) of
             None \<Rightarrow> (bm, snd maps)
           | Some sm \<Rightarrow> (bm, sm)))"

text \<open>
  The loop over \<open>tick.positions\<close>: \<open>Inl\<close> is the early \<open>return\<close> with the error message,
  \<open>Inr\<close> the two local maps when the loop ends.
\<close>

fun absorb_positions ::
  "RuntimeState \<Rightarrow> string \<Rightarrow> Position list \<Rightarrow> exec_map \<times> exec_map
     \<Rightarrow> string + (exec_map \<times> exec_map)" where
  "absorb_positions rt stamp [] maps = Inr maps"
| "absorb_positions rt stamp (p # ps) maps =
     (if \<not> TRADE_ID_PATTERN_match (comment p) then absorb_positions rt stamp ps maps
      else if str_in ''buy_'' (comment p) \<and>
              (buy_id rt = [] \<or> \<not> str_in (buy_id rt) (comment p))
      then Inl (conflict_buy (ticket p))
      else if str_in ''sell_'' (comment p) \<and>
              (sell_id rt = [] \<or> \<not> str_in (sell_id rt) (comment p))
      then Inl (conflict_sell (ticket p))
      else absorb_positions rt stamp ps (record_position rt stamp p maps))"

text \<open>
  The cumulative statistics: the keys in ascending order, the running sums written into
  each row. A key of the sorted list is a key of the map, so the \<open>None\<close> branch (the
  \<open>KeyError\<close>) is never taken.
\<close>

fun cumulate_loop :: "int list \<Rightarrow> real \<Rightarrow> real \<Rightarrow> exec_map \<Rightarrow> exec_map" where
  "cumulate_loop [] cum_lots cum_profit m = m"
| "cumulate_loop (idx # rest) cum_lots cum_profit m =
     (case map_of m idx of
        None \<Rightarrow> m
      | Some row \<Rightarrow>
          cumulate_loop rest (cum_lots + ex_lots row) (cum_profit + ex_profit row)
            (AList.update idx
               (row\<lparr>cumulative_lots := cum_lots + ex_lots row,
                    cumulative_profit := cum_profit + ex_profit row\<rparr>) m))"

definition cumulate :: "exec_map \<Rightarrow> exec_map" where
  "cumulate m = cumulate_loop (sort (map fst m)) 0 0 m"

definition update_exec_stats :: "string \<Rightarrow> TickData \<Rightarrow> RuntimeState \<Rightarrow> RuntimeState" where
  "update_exec_stats stamp tick rt =
     (case absorb_positions rt stamp (positions tick) (buy_exec_map rt, sell_exec_map rt) of
        Inl msg \<Rightarrow> rt\<lparr>error_status := msg\<rparr>
      | Inr maps \<Rightarrow>
          rt\<lparr>buy_exec_map := cumulate (fst maps), sell_exec_map := cumulate (snd maps)\<rparr>)"

subsection \<open>Take-profit evaluator and helpers\<close>

text \<open>
  \<open>session_positions tick sid\<close> is the comprehension
  \<open>[p for p in tick.positions if sid in p.comment]\<close>.
\<close>

definition session_positions :: "TickData \<Rightarrow> string \<Rightarrow> Position list" where
  "session_positions tick sid = filter (\<lambda>p. str_in sid (comment p)) (positions tick)"

definition tp_target :: "string \<Rightarrow> real \<Rightarrow> TickData \<Rightarrow> real" where
  "tp_target tp_type tp_value tick =
     (if tp_type = ''equity_pct'' then equity tick * (tp_value / 100)
      else if tp_type = ''balance_pct'' then balance tick * (tp_value / 100)
      else if tp_type = ''fixed_money'' then tp_value
      else 0)"

definition check_tp_buy :: "Engine \<Rightarrow> TickData \<Rightarrow> int" where
  "check_tp_buy e tick =
     (if buy_tp_value (settings e) \<le> 0 \<or> buy_id (runtime e) = [] then - 1
      else
        let buy_positions = session_positions tick (buy_id (runtime e)) in
        if buy_positions = [] then 0
        else
          let profit_sum = sum_list (map profit buy_positions);
              target = tp_target (buy_tp_type (settings e)) (buy_tp_value (settings e)) tick
          in if target > 0 \<and> profit_sum \<ge> target then 1 else 0)"

definition check_tp_sell :: "Engine \<Rightarrow> TickData \<Rightarrow> int" where
  "check_tp_sell e tick =
     (if sell_tp_value (settings e) \<le> 0 \<or> sell_id (runtime e) = [] then - 1
      else
        let sell_positions = session_positions tick (sell_id (runtime e)) in
        if sell_positions = [] then 0
        else
          let profit_sum = sum_list (map profit sell_positions);
              target = tp_target (sell_tp_type (settings e)) (sell_tp_value (settings e)) tick
          in if target > 0 \<and> profit_sum \<ge> target then 1 else 0)"

definition count_active_trades :: "TickData \<Rightarrow> string \<Rightarrow> nat" where
  "count_active_trades tick hash_id =
     (if hash_id = [] then 0
      else length (session_positions tick hash_id))"

text \<open>
  \<open>last_index m\<close> is \<open>sorted(int(k) for k in m)[-1]\<close> of a non-empty map. The entry
  under it exists, so the \<open>None\<close> branch of \<open>entry_price_at\<close> is never taken from
  \<open>get_last_executed_price\<close>.
\<close>

definition last_index :: "exec_map \<Rightarrow> int" where
  "last_index m = last (sort (map fst m))"

definition entry_price_at :: "exec_map \<Rightarrow> int \<Rightarrow> real \<Rightarrow> real" where
  "entry_price_at m idx dflt = (case map_of m idx of None \<Rightarrow> dflt | Some row \<Rightarrow> entry_price row)"

definition get_last_executed_price :: "RuntimeState \<Rightarrow> string \<Rightarrow> real" where
  "get_last_executed_price rt side =
     (if side = ''buy'' then
        (if buy_exec_map rt = [] then buy_start_ref rt
         else entry_price_at (buy_exec_map rt) (last_index (buy_exec_map rt)) (buy_start_ref rt))
      else
        (if sell_exec_map rt = [] then sell_start_ref rt
         else entry_price_at (sell_exec_map rt) (last_index (sell_exec_map rt)) (sell_start_ref rt)))"

subsection \<open>Tick decision pipeline\<close>

text \<open>
  \<open>handle_tick\<close> is split along the priority comments of the source. A stage returns
  the engine it leaves and \<open>Some\<close> reply when it executes a \<open>return\<close>, \<open>None\<close> when
  control falls through to the next statement. The handler's parsing of the request
  body comes before all of it and reads no state; \<open>handle_tick\<close> below starts from the
  parsed \<open>TickData\<close>. No operation of the modelled path raises, so the handler's outer
  \<open>except\<close> is never entered.
\<close>

type_synonym stage_result = "Engine \<times> Action option"

definition next_stage :: "stage_result \<Rightarrow> (Engine \<Rightarrow> stage_result) \<Rightarrow> stage_result" where
  "next_stage r f = (case snd r of None \<Rightarrow> f (fst r) | Some a \<Rightarrow> r)"

definition deque_append :: "(real \<times> real) \<Rightarrow> (real \<times> real) list \<Rightarrow> (real \<times> real) list" where
  "deque_append x h = drop (Suc (length h) - PRICE_HISTORY_LEN) (h @ [x])"

definition market_update :: "Env \<Rightarrow> TickData \<Rightarrow> Engine \<Rightarrow> Engine" where
  "market_update env tick e =
     (let mid = (ask tick + bid tick) / 2;
          rt1 = (runtime e)\<lparr>current_ask := ask tick, current_bid := bid tick\<rparr>;
          rt2 = (if price_history e \<noteq> []
                 then rt1\<lparr>price_direction :=
                        (if mid > fst (last (price_history e)) then ''up'' else ''down'')\<rparr>
                 else rt1)
      in e\<lparr>runtime := rt2\<lparr>current_price := mid\<rparr>,
           price_history := deque_append (mid, now_ts env) (price_history e),
           last_update_ts := now_iso env\<rparr>)"

text \<open>Priority 1: pending actions.\<close>

definition pending_stage :: "Engine \<Rightarrow> stage_result" where
  "pending_stage e =
     (case pending_actions (runtime e) of
        [] \<Rightarrow> (e, None)
      | action # rest \<Rightarrow>
          (e\<lparr>runtime := (runtime e)\<lparr>pending_actions := rest\<rparr>\<rparr>,
           Some (CLOSE_ALL
             (if str_in ''BUY'' action then buy_id (runtime e)
              else if str_in ''SELL'' action then sell_id (runtime e)
              else ''server''))))"

text \<open>Priority 1.5: closing confirmation monitor.\<close>

definition closing_buy :: "real \<Rightarrow> TickData \<Rightarrow> Engine \<Rightarrow> stage_result" where
  "closing_buy mid tick e =
     (let rt = runtime e in
      if buy_is_closing rt then
        (if count_active_trades tick (buy_id rt) = 0 then
           (let rt1 = rt\<lparr>buy_is_closing := False, buy_exec_map := [],
                          buy_hedge_triggered := False\<rparr>;
                rt2 = (if cyclic_on rt1
                       then rt1\<lparr>buy_id := [], buy_start_ref := mid\<rparr>
                       else rt1\<lparr>buy_on := False, buy_id := [], buy_start_ref := 0\<rparr>)
            in (e\<lparr>runtime := rt2\<rparr>, Some (WAIT None)))
         else (e, Some (CLOSE_ALL (buy_id rt))))
      else (e, None))"

definition closing_sell :: "real \<Rightarrow> TickData \<Rightarrow> Engine \<Rightarrow> stage_result" where
  "closing_sell mid tick e =
     (let rt = runtime e in
      if sell_is_closing rt then
        (if count_active_trades tick (sell_id rt) = 0 then
           (let rt1 = rt\<lparr>sell_is_closing := False, sell_exec_map := [],
                          sell_hedge_triggered := False\<rparr>;
                rt2 = (if cyclic_on rt1
                       then rt1\<lparr>sell_id := [], sell_start_ref := mid\<rparr>
                       else rt1\<lparr>sell_on := False, sell_id := [], sell_start_ref := 0\<rparr>)
            in (e\<lparr>runtime := rt2\<rparr>, Some (WAIT None)))
         else (e, Some (CLOSE_ALL (sell_id rt))))
      else (e, None))"

text \<open>
  Priority 1.8: hedge monitor. \<open>hedge_sell_fresh\<close> and \<open>hedge_sell_augment\<close> are the
  scenarios A and B of the buy side's check (they open or extend the sell session);
  \<open>hedge_buy_fresh\<close> and \<open>hedge_buy_augment\<close> those of the sell side's check.
\<close>

definition hedge_sell_fresh :: "Env \<Rightarrow> TickData \<Rightarrow> real \<Rightarrow> Engine \<Rightarrow> stage_result" where
  "hedge_sell_fresh env tick hedge_lots e =
     (let rt1 = (runtime e)\<lparr>sell_id := get_hash ''sell'' (uuid_sell env),
                             sell_start_ref := bid tick,
                             sell_exec_map := [],
                             sell_on := True,
                             sell_waiting_limit := False\<rparr>;
          st1 = (settings e)\<lparr>rows_sell :=
                   [\<lparr>index = 0, dollar = 0, lots = hedge_lots, alert = True\<rparr>]\<rparr>;
          rt2 = rt1\<lparr>sell_exec_map :=
                       AList.update 0 (new_stats 0 (bid tick) hedge_lots 0 (now_iso env))
                         (sell_exec_map rt1),
                    sell_last_order_sent_ts := now_ts env\<rparr>
      in (e\<lparr>runtime := rt2, settings := st1\<rparr>,
          Some (SELL hedge_lots (sell_id rt2 @ ''_idx0'') True)))"

definition hedge_sell_augment :: "Env \<Rightarrow> TickData \<Rightarrow> real \<Rightarrow> Engine \<Rightarrow> stage_result" where
  "hedge_sell_augment env tick hedge_lots e =
     (let rt = runtime e;
          last_idx = (if sell_exec_map rt \<noteq> [] then last_index (sell_exec_map rt) else - 1);
          new_idx = last_idx + 1;
          last_price = get_last_executed_price rt ''sell'';
          new_dollar_gap = \<bar>bid tick - last_price\<bar>;
          st1 = (settings e)\<lparr>rows_sell := rows_sell (settings e) @
                   [\<lparr>index = new_idx, dollar = new_dollar_gap, lots = hedge_lots, alert = True\<rparr>]\<rparr>;
          rt1 = rt\<lparr>sell_exec_map :=
                      AList.update new_idx (new_stats new_idx (bid tick) hedge_lots 0 (now_iso env))
                        (sell_exec_map rt),
                   sell_last_order_sent_ts := now_ts env\<rparr>
      in (e\<lparr>runtime := rt1, settings := st1\<rparr>,
          Some (SELL hedge_lots (sell_id rt1 @ ''_idx'' @ str_int new_idx) True)))"

definition hedge_buy_check :: "Env \<Rightarrow> TickData \<Rightarrow> Engine \<Rightarrow> stage_result" where
  "hedge_buy_check env tick e =
     (let rt = runtime e; st = settings e in
      if buy_on rt \<and> buy_id rt \<noteq> [] \<and> \<not> buy_hedge_triggered rt \<and>
         buy_hedge_value st > 0 \<and> \<not> buy_is_closing rt then
        (let buy_positions = session_positions tick (buy_id rt) in
         if buy_positions \<noteq> [] then
           (let total_buy_profit = sum_list (map profit buy_positions);
                loss_threshold = - 1 * buy_hedge_value st in
            if total_buy_profit \<le> loss_threshold then
              (let e1 = e\<lparr>runtime := rt\<lparr>buy_hedge_triggered := True\<rparr>\<rparr>;
                   hedge_lots = sum_list (map volume buy_positions) in
               if \<not> sell_is_closing rt then
                 (if \<not> sell_on rt \<or> sell_id rt = [] \<or> length (sell_exec_map rt) = 0
                  then hedge_sell_fresh env tick hedge_lots e1
                  else hedge_sell_augment env tick hedge_lots e1)
               else (e1, None))
            else (e, None))
         else (e, None))
      else (e, None))"

definition hedge_buy_fresh :: "Env \<Rightarrow> TickData \<Rightarrow> real \<Rightarrow> Engine \<Rightarrow> stage_result" where
  "hedge_buy_fresh env tick hedge_lots e =
     (let rt1 = (runtime e)\<lparr>buy_id := get_hash ''buy'' (uuid_buy env),
                             buy_start_ref := ask tick,
                             buy_exec_map := [],
                             buy_on := True,
                             buy_waiting_limit := False\<rparr>;
          st1 = (settings e)\<lparr>rows_buy :=
                   [\<lparr>index = 0, dollar = 0, lots = hedge_lots, alert = True\<rparr>]\<rparr>;
          rt2 = rt1\<lparr>buy_exec_map :=
                       AList.update 0 (new_stats 0 (ask tick) hedge_lots 0 (now_iso env))
                         (buy_exec_map rt1),
                    buy_last_order_sent_ts := now_ts env\<rparr>
      in (e\<lparr>runtime := rt2, settings := st1\<rparr>,
          Some (BUY hedge_lots (buy_id rt2 @ ''_idx0'') True)))"

definition hedge_buy_augment :: "Env \<Rightarrow> TickData \<Rightarrow> real \<Rightarrow> Engine \<Rightarrow> stage_result" where
  "hedge_buy_augment env tick hedge_lots e =
     (let rt = runtime e;
          last_idx = (if buy_exec_map rt \<noteq> [] then last_index (buy_exec_map rt) else - 1);
          new_idx = last_idx + 1;
          last_price = get_last_executed_price rt ''buy'';
          new_dollar_gap = \<bar>ask tick - last_price\<bar>;
          st1 = (settings e)\<lparr>rows_buy := rows_buy (settings e) @
                   [\<lparr>index = new_idx, dollar = new_dollar_gap, lots = hedge_lots, alert = True\<rparr>]\<rparr>;
          rt1 = rt\<lparr>buy_exec_map :=
                      AList.update new_idx (new_stats new_idx (ask tick) hedge_lots 0 (now_iso env))
                        (buy_exec_map rt),
                   buy_last_order_sent_ts := now_ts env\<rparr>
      in (e\<lparr>runtime := rt1, settings := st1\<rparr>,
          Some (BUY hedge_lots (buy_id rt1 @ ''_idx'' @ str_int new_idx) True)))"

definition hedge_sell_check :: "Env \<Rightarrow> TickData \<Rightarrow> Engine \<Rightarrow> stage_result" where
  "hedge_sell_check env tick e =
     (let rt = runtime e; st = settings e in
      if sell_on rt \<and> sell_id rt \<noteq> [] \<and> \<not> sell_hedge_triggered rt \<and>
         sell_hedge_value st > 0 \<and> \<not> sell_is_closing rt then
        (let sell_positions = session_positions tick (sell_id rt) in
         if sell_positions \<noteq> [] then
           (let total_sell_profit = sum_list (map profit sell_positions);
                loss_threshold = - 1 * sell_hedge_value st in
            if total_sell_profit \<le> loss_threshold then
              (let e1 = e\<lparr>runtime := rt\<lparr>sell_hedge_triggered := True\<rparr>\<rparr>;
                   hedge_lots = sum_list (map volume sell_positions) in
               if \<not> buy_is_closing rt then
                 (if \<not> buy_on rt \<or> buy_id rt = [] \<or> length (buy_exec_map rt) = 0
                  then hedge_buy_fresh env tick hedge_lots e1
                  else hedge_buy_augment env tick hedge_lots e1)
               else (e1, None))
            else (e, None))
         else (e, None))
      else (e, None))"

text \<open>Priority 2: take profit.\<close>

definition tp_buy :: "TickData \<Rightarrow> Engine \<Rightarrow> stage_result" where
  "tp_buy tick e =
     (if buy_id (runtime e) \<noteq> [] \<and> check_tp_buy e tick = 1
      then (e\<lparr>runtime := (runtime e)\<lparr>buy_is_closing := True\<rparr>\<rparr>,
            Some (CLOSE_ALL (buy_id (runtime e))))
      else (e, None))"

definition tp_sell :: "TickData \<Rightarrow> Engine \<Rightarrow> stage_result" where
  "tp_sell tick e =
     (if sell_id (runtime e) \<noteq> [] \<and> check_tp_sell e tick = 1
      then (e\<lparr>runtime := (runtime e)\<lparr>sell_is_closing := True\<rparr>\<rparr>,
            Some (CLOSE_ALL (sell_id (runtime e))))
      else (e, None))"

text \<open>Priority 3: external close, behind the grace period. Neither statement returns.\<close>

definition external_close_buy :: "Env \<Rightarrow> real \<Rightarrow> TickData \<Rightarrow> Engine \<Rightarrow> Engine" where
  "external_close_buy env mid tick e =
     (let rt = runtime e;
          buy_grace_passed = (now_ts env - buy_last_order_sent_ts rt \<ge> EXTERNAL_CLOSE_GRACE_PERIOD) in
      if buy_id rt \<noteq> [] \<and> length (buy_exec_map rt) > 0 \<and> \<not> buy_is_closing rt \<and> buy_grace_passed
      then
        (if count_active_trades tick (buy_id rt) = 0 then
           (if cyclic_on rt
            then e\<lparr>runtime := rt\<lparr>buy_id := [], buy_exec_map := [], buy_start_ref := mid,
                                  buy_hedge_triggered := False\<rparr>\<rparr>
            else e\<lparr>runtime := rt\<lparr>buy_on := False, buy_id := [], buy_exec_map := [],
                                  buy_hedge_triggered := False\<rparr>\<rparr>)
         else e)
      else e)"

definition external_close_sell :: "Env \<Rightarrow> real \<Rightarrow> TickData \<Rightarrow> Engine \<Rightarrow> Engine" where
  "external_close_sell env mid tick e =
     (let rt = runtime e;
          sell_grace_passed = (now_ts env - sell_last_order_sent_ts rt \<ge> EXTERNAL_CLOSE_GRACE_PERIOD) in
      if sell_id rt \<noteq> [] \<and> length (sell_exec_map rt) > 0 \<and> \<not> sell_is_closing rt \<and> sell_grace_passed
      then
        (if count_active_trades tick (sell_id rt) = 0 then
           (if cyclic_on rt
            then e\<lparr>runtime := rt\<lparr>sell_id := [], sell_exec_map := [], sell_start_ref := mid,
                                  sell_hedge_triggered := False\<rparr>\<rparr>
            else e\<lparr>runtime := rt\<lparr>sell_on := False, sell_id := [], sell_exec_map := [],
                                  sell_hedge_triggered := False\<rparr>\<rparr>)
         else e)
      else e)"

text \<open>
  Priorities 4 and 5: grid expansion. The index of the next layer is the size of the
  side's exec_map, and the row is read by its position in the table.
\<close>

definition accumulate_buy :: "Env \<Rightarrow> TickData \<Rightarrow> Engine \<Rightarrow> stage_result" where
  "accumulate_buy env tick e =
     (let rt = runtime e; st = settings e in
      if buy_on rt \<and> \<not> buy_is_closing rt \<and> \<not> buy_hedge_triggered rt then
        (let rt1 = (if buy_id rt = []
                    then rt\<lparr>buy_id := get_hash ''buy'' (uuid_buy env),
                            buy_exec_map := [],
                            buy_start_ref :=
                              (if buy_limit_price st > 0 then buy_limit_price st else ask tick),
                            buy_waiting_limit := (buy_limit_price st > 0)\<rparr>
                    else rt);
             e1 = e\<lparr>runtime := rt1\<rparr> in
         if buy_waiting_limit rt1 then
           (if ask tick \<le> buy_limit_price st
            then (e1\<lparr>runtime := rt1\<lparr>buy_waiting_limit := False, buy_start_ref := ask tick\<rparr>\<rparr>, None)
            else (e1, None))
         else
           (let idx = length (buy_exec_map rt1) in
            if idx < length (rows_buy st) then
              (let row = rows_buy st ! idx in
               if dollar row \<le> 0 \<or> lots row \<le> 0 then (e1, Some (WAIT None))
               else
                 (let target = calculate_grid_level_price e1 ''buy'' (int idx) in
                  if ask tick \<le> target then
                    (e1\<lparr>runtime := rt1\<lparr>buy_exec_map :=
                            AList.update (int idx)
                              (new_stats (int idx) (ask tick) (lots row) 0 (now_iso env))
                              (buy_exec_map rt1),
                          buy_last_order_sent_ts := now_ts env\<rparr>\<rparr>,
                     Some (BUY (lots row) (buy_id rt1 @ ''_idx'' @ str_int (int idx)) (alert row)))
                  else (e1, None)))
            else (e1, None)))
      else (e, None))"

definition accumulate_sell :: "Env \<Rightarrow> TickData \<Rightarrow> Engine \<Rightarrow> stage_result" where
  "accumulate_sell env tick e =
     (let rt = runtime e; st = settings e in
      if sell_on rt \<and> \<not> sell_is_closing rt \<and> \<not> sell_hedge_triggered rt then
        (let rt1 = (if sell_id rt = []
                    then rt\<lparr>sell_id := get_hash ''sell'' (uuid_sell env),
                            sell_exec_map := [],
                            sell_start_ref :=
                              (if sell_limit_price st > 0 then sell_limit_price st else bid tick),
                            sell_waiting_limit := (sell_limit_price st > 0)\<rparr>
                    else rt);
             e1 = e\<lparr>runtime := rt1\<rparr> in
         if sell_waiting_limit rt1 then
           (if bid tick \<ge> sell_limit_price st
            then (e1\<lparr>runtime := rt1\<lparr>sell_waiting_limit := False, sell_start_ref := bid tick\<rparr>\<rparr>, None)
            else (e1, None))
         else
           (let idx = length (sell_exec_map rt1) in
            if idx < length (rows_sell st) then
              (let row = rows_sell st ! idx in
               if dollar row \<le> 0 \<or> lots row \<le> 0 then (e1, Some (WAIT None))
               else
                 (let target = calculate_grid_level_price e1 ''sell'' (int idx) in
                  if bid tick \<ge> target then
                    (e1\<lparr>runtime := rt1\<lparr>sell_exec_map :=
                            AList.update (int idx)
                              (new_stats (int idx) (bid tick) (lots row) 0 (now_iso env))
                              (sell_exec_map rt1),
                          sell_last_order_sent_ts := now_ts env\<rparr>\<rparr>,
                     Some (SELL (lots row) (sell_id rt1 @ ''_idx'' @ str_int (int idx)) (alert row)))
                  else (e1, None)))
            else (e1, None)))
      else (e, None))"

text \<open>
  \<open>decide\<close> is the handler from priority 1 to the final \<open>return\<close>, on the engine left by
  the market update and the reconciler.
\<close>

definition decide :: "Env \<Rightarrow> TickData \<Rightarrow> Engine \<Rightarrow> stage_result" where
  "decide env tick e =
     (let mid = (ask tick + bid tick) / 2 in
      next_stage (pending_stage e) (\<lambda>e.
      next_stage (closing_buy mid tick e) (\<lambda>e.
      next_stage (closing_sell mid tick e) (\<lambda>e.
      next_stage (hedge_buy_check env tick e) (\<lambda>e.
      next_stage (hedge_sell_check env tick e) (\<lambda>e.
      next_stage (tp_buy tick e) (\<lambda>e.
      next_stage (tp_sell tick e) (\<lambda>e.
      next_stage (accumulate_buy env tick
                    (external_close_sell env mid tick (external_close_buy env mid tick e))) (\<lambda>e.
      accumulate_sell env tick e)))))))))"

text \<open>\<open>reconciled\<close> is the engine after the market data update and \<open>update_exec_stats\<close>.\<close>

definition reconciled :: "Env \<Rightarrow> TickData \<Rightarrow> Engine \<Rightarrow> Engine" where
  "reconciled env tick e =
     (let e1 = market_update env tick e
      in e1\<lparr>runtime := update_exec_stats (now_iso env) tick (runtime e1)\<rparr>)"

definition handle_tick :: "Env \<Rightarrow> TickData \<Rightarrow> Engine \<Rightarrow> Engine \<times> Action" where
  "handle_tick env tick e =
     (if error_status (runtime e) \<noteq> [] then (e, WAIT (Some (error_status (runtime e))))
      else
        (let e2 = reconciled env tick e in
         if error_status (runtime e2) \<noteq> [] then (e2, WAIT (Some (error_status (runtime e2))))
         else
           (case decide env tick e2 of
              (e3, Some a) \<Rightarrow> (e3, a)
            | (e3, None) \<Rightarrow> (e3, WAIT None))))"

subsection \<open>Command surface\<close>

text \<open>
  \<open>merge_rows\<close> is the loop of \<open>update_settings\<close> over one side's new rows; \<open>rows_dict\<close> is
  the dictionary \<open>{r.index: r for r in rows}\<close>, in which a later row of the same index
  replaces an earlier one.
\<close>

definition rows_dict :: "GridRow list \<Rightarrow> int \<Rightarrow> GridRow option" where
  "rows_dict rows = map_of (rev (map (\<lambda>r. (index r, r)) rows))"

fun merge_rows :: "exec_map \<Rightarrow> GridRow list \<Rightarrow> GridRow list \<Rightarrow> GridRow list" where
  "merge_rows m cur [] = []"
| "merge_rows m cur (new_row # rest) =
     (if dollar new_row \<le> 0 \<or> lots new_row \<le> 0 then merge_rows m cur rest
      else
        (case (map_of m (index new_row), rows_dict cur (index new_row)) of
           (Some x, Some old) \<Rightarrow>
             \<lparr>index = index old, dollar = dollar old, lots = lots old, alert = alert new_row\<rparr>
               # merge_rows m cur rest
         | _ \<Rightarrow> new_row # merge_rows m cur rest))"

text \<open>\<open>Inl\<close> is the exception the validation raises; the state is then untouched.\<close>

definition update_settings :: "UserSettings \<Rightarrow> Engine \<Rightarrow> string + Engine" where
  "update_settings new e =
     (if buy_tp_value new < 0 \<or> sell_tp_value new < 0
      then Inl ''TP values cannot be negative''
      else if buy_hedge_value new < 0 \<or> sell_hedge_value new < 0
      then Inl ''Hedge values cannot be negative''
      else
        Inr (e\<lparr>settings :=
               \<lparr>buy_limit_price = buy_limit_price new,
                sell_limit_price = sell_limit_price new,
                buy_tp_type = buy_tp_type new,
                buy_tp_value = buy_tp_value new,
                sell_tp_type = sell_tp_type new,
                sell_tp_value = sell_tp_value new,
                buy_hedge_value = buy_hedge_value new,
                sell_hedge_value = sell_hedge_value new,
                rows_buy = merge_rows (buy_exec_map (runtime e)) (rows_buy (settings e)) (rows_buy new),
                rows_sell = merge_rows (sell_exec_map (runtime e)) (rows_sell (settings e)) (rows_sell new)\<rparr>\<rparr>))"

text \<open>
  \<open>control\<close>: each argument is \<open>None\<close> when the body leaves it out.
\<close>

definition control ::
  "bool option \<Rightarrow> bool option \<Rightarrow> bool option \<Rightarrow> bool option \<Rightarrow> Engine \<Rightarrow> Engine" where
  "control buy_switch sell_switch cyclic emergency_close e =
     (let rt = runtime e in
      if emergency_close = Some True then
        e\<lparr>runtime := rt\<lparr>buy_on := False, sell_on := False, cyclic_on := False,
                         buy_is_closing := True, sell_is_closing := True,
                         pending_actions := pending_actions rt @ [''CLOSE_ALL_EMERGENCY''],
                         error_status := []\<rparr>\<rparr>
      else
        (let rt1 = (case buy_switch of
                      None \<Rightarrow> rt
                    | Some b \<Rightarrow>
                        (if buy_on rt \<and> \<not> b
                         then rt\<lparr>pending_actions := pending_actions rt @ [''CLOSE_ALL_BUY''],
                                 buy_is_closing := True\<rparr>
                         else rt)\<lparr>buy_on := b\<rparr>);
             rt2 = (case sell_switch of
                      None \<Rightarrow> rt1
                    | Some b \<Rightarrow>
                        (if sell_on rt1 \<and> \<not> b
                         then rt1\<lparr>pending_actions := pending_actions rt1 @ [''CLOSE_ALL_SELL''],
                                  sell_is_closing := True\<rparr>
                         else rt1)\<lparr>sell_on := b\<rparr>);
             rt3 = (case cyclic of None \<Rightarrow> rt2 | Some c \<Rightarrow> rt2\<lparr>cyclic_on := c\<rparr>)
         in e\<lparr>runtime := rt3\<rparr>))"

subsection \<open>Reachable engine states\<close>

text \<open>
  The states the engine takes from its initial state under any sequence of ticks and
  commands. A settings update that raises leaves the state as it is.
\<close>

inductive reachable :: "Engine \<Rightarrow> bool" where
  reach_init: "reachable initial_engine"
| reach_tick: "reachable e \<Longrightarrow> reachable (fst (handle_tick env tick e))"
| reach_settings: "reachable e \<Longrightarrow> update_settings new e = Inr e' \<Longrightarrow> reachable e'"
| reach_control: "reachable e \<Longrightarrow> reachable (control buy_switch sell_switch cyclic emergency_close e)"

text \<open>The invariant of the hedge latch: no latch without a session id.\<close>

definition latch_inv :: "Engine \<Rightarrow> bool" where
  "latch_inv e =
     ((buy_id (runtime e) = [] \<longrightarrow> \<not> buy_hedge_triggered (runtime e)) \<and>
      (sell_id (runtime e) = [] \<longrightarrow> \<not> sell_hedge_triggered (runtime e)))"

subsection \<open>Predicates for the replay of a tick\<close>















subsection \<open>Concrete inputs\<close>


definition c1_manual :: Position where
  "c1_manual = \<lparr>ticket = 11, symbol = ''XAUUSD'', type = ''BUY'', volume = 1/2, price = 101,
                  profit = - 3, comment = ''buy_abcdef1_idx0''\<rparr>"

definition c1_managed :: Position where
  "c1_managed = \<lparr>ticket = 12, symbol = ''XAUUSD'', type = ''BUY'', volume = 1/10, price = 99,
                   profit = 2, comment = ''buy_abcdef12_idx0''\<rparr>"

definition c1_upper :: Position where
  "c1_upper = \<lparr>ticket = 13, symbol = ''XAUUSD'', type = ''BUY'', volume = 1/10, price = 99,
                 profit = 2, comment = ''buy_ABCDEF12_idx0''\<rparr>"

definition c1_tick :: "Position list \<Rightarrow> TickData" where
  "c1_tick ps = \<lparr>account_id = ''acc'', equity = 1000, balance = 1000, tick_symbol = ''XAUUSD'',
                  ask = 100, bid = 99, positions = ps\<rparr>"

definition c1_runtime :: RuntimeState where
  "c1_runtime = default_runtime\<lparr>buy_on := True, buy_id := ''buy_abcdef12''\<rparr>"

definition env_at :: "real \<Rightarrow> Env" where
  "env_at t = \<lparr>now_ts = t, now_iso = ''t'', uuid_buy = ''0123456789abcdef0123456789abcdef'',
               uuid_sell = ''fedcba9876543210fedcba9876543210''\<rparr>"

definition c3_engine :: Engine where
  "c3_engine = initial_engine\<lparr>runtime := c1_runtime\<rparr>"

definition c6_engine :: Engine where
  "c6_engine =
     initial_engine\<lparr>
       settings := default_settings\<lparr>
         rows_buy := [\<lparr>index = 0, dollar = 1, lots = 1/10, alert = False\<rparr>]\<rparr>,
       runtime := default_runtime\<lparr>
         buy_on := True, buy_id := ''buy_abcdef12'', buy_start_ref := 100,
         buy_exec_map := [(0, new_stats 0 99 (1/10) 0 ''t0'')],
         buy_last_order_sent_ts := 4\<rparr>\<rparr>"

definition c6_closing :: Engine where
  "c6_closing = c6_engine\<lparr>runtime := (runtime c6_engine)\<lparr>buy_is_closing := True\<rparr>\<rparr>"






definition c5_engine :: Engine where
  "c5_engine =
     initial_engine\<lparr>
       settings := default_settings\<lparr>
         rows_buy := [\<lparr>index = 0, dollar = 1, lots = 1/10, alert = False\<rparr>,
                      \<lparr>index = 1, dollar = 3/2, lots = 2/10, alert = False\<rparr>]\<rparr>,
       runtime := default_runtime\<lparr>
         buy_on := True, buy_id := ''buy_abcdef12'', buy_start_ref := 100,
         buy_exec_map := [(0, new_stats 0 99 (1/10) 0 ''t0'')]\<rparr>\<rparr>"

definition c5_both :: Engine where
  "c5_both =
     c5_engine\<lparr>
       settings := (settings c5_engine)\<lparr>
         rows_sell := [\<lparr>index = 0, dollar = 2, lots = 3/10, alert = False\<rparr>]\<rparr>,
       runtime := (runtime c5_engine)\<lparr>
         sell_on := True, sell_id := ''sell_12abcdef'', sell_start_ref := 100,
         sell_exec_map := [(0, new_stats 0 102 (3/10) 0 ''t0'')]\<rparr>\<rparr>"

definition c5_new :: UserSettings where
  "c5_new = default_settings\<lparr>
     rows_buy := [\<lparr>index = 0, dollar = 5, lots = 9/10, alert = True\<rparr>,
                  \<lparr>index = 1, dollar = 2, lots = 3/10, alert = False\<rparr>],
     rows_sell := [\<lparr>index = 0, dollar = 7, lots = 7/10, alert = True\<rparr>]\<rparr>"

definition c5_zero_gap :: UserSettings where
  "c5_zero_gap = default_settings\<lparr>
     rows_buy := [\<lparr>index = 0, dollar = 0, lots = 1/10, alert = True\<rparr>,
                  \<lparr>index = 1, dollar = 2, lots = 3/10, alert = False\<rparr>]\<rparr>"

definition c10_started :: Engine where
  "c10_started = control (Some True) None None None initial_engine"




section \<open>Properties\<close>

subsection \<open>Grid geometry\<close>





subsection \<open>Position reconciler\<close>

lemma absorb_skip:
  "\<not> TRADE_ID_PATTERN_match (comment p) \<Longrightarrow>
   absorb_positions rt stamp (ps @ p # qs) maps = absorb_positions rt stamp (ps @ qs) maps"
proof (induction ps arbitrary: maps)
  case Nil
  then show ?case by simp
next
  case (Cons a ps)
  have IH: "\<And>m. absorb_positions rt stamp (ps @ p # qs) m = absorb_positions rt stamp (ps @ qs) m"
    using Cons by blast
  show ?case
    by (simp only: append_Cons absorb_positions.simps IH)
qed

lemma c1_manual_unmatched: "\<not> TRADE_ID_PATTERN_match (comment c1_manual)"
  by (simp add: c1_manual_def TRADE_ID_PATTERN_match_def strip_side_def is_hex_def)

text \<open>
  C1, as amended. A position whose comment does not match the pattern the program uses
  (hex digits of either case) is ignored by the reconciler: wherever it stands in the
  position list, \<open>update_exec_stats\<close> returns what it returns without it, so it writes no
  exec_map entry and sets no error status.
\<close>

theorem unmatched_position_ignored:
  "\<not> TRADE_ID_PATTERN_match (comment p) \<Longrightarrow>
   update_exec_stats stamp (tick\<lparr>positions := ps @ p # qs\<rparr>) rt
     = update_exec_stats stamp (tick\<lparr>positions := ps @ qs\<rparr>) rt"
  by (simp add: update_exec_stats_def absorb_skip)

theorem unmatched_position_ignored_witness:
  "\<not> TRADE_ID_PATTERN_match (comment c1_manual) \<and>
   update_exec_stats ''t'' (c1_tick [c1_manual, c1_managed]) c1_runtime
     = update_exec_stats ''t'' (c1_tick [c1_managed]) c1_runtime"
  using unmatched_position_ignored
    [where p = c1_manual and stamp = "''t''" and tick = "c1_tick []" and ps = "[]"
       and qs = "[c1_managed]" and rt = c1_runtime]
  by (simp add: c1_manual_unmatched c1_tick_def)

text \<open>
  C1 as the specification states it fails: a comment whose hash has uppercase hex digits
  is outside the lowercase grammar, yet the reconciler does not ignore it. With the buy
  session \<open>buy_abcdef12\<close> active, the position \<open>buy_ABCDEF12_idx0\<close> sets the error status,
  which the same tick without the position leaves empty.
\<close>

theorem uppercase_hash_counterexample:
  "\<not> spec_grammar_match (comment c1_upper) \<and>
   error_status (update_exec_stats ''t'' (c1_tick []) c1_runtime) = [] \<and>
   error_status (update_exec_stats ''t'' (c1_tick [c1_upper]) c1_runtime)
     = ''CRITICAL: Identity Conflict. Unknown Buy trade 13 detected.''"
  by (simp add: c1_upper_def c1_tick_def c1_runtime_def default_runtime_def
      spec_grammar_match_def strip_side_def is_lower_hex_def
      update_exec_stats_def TRADE_ID_PATTERN_match_def is_hex_def is_digit_def strip_newline_def
      conflict_buy_def str_int_def str_nat.simps digit_char_def cumulate_def)

subsection \<open>Fields that the stages leave alone\<close>

lemma err_pending: "error_status (runtime (fst (pending_stage e))) = error_status (runtime e)"
  by (simp add: pending_stage_def split: list.splits)

lemma err_closing_buy: "error_status (runtime (fst (closing_buy mid tick e))) = error_status (runtime e)"
  by (simp add: closing_buy_def Let_def)

lemma err_closing_sell: "error_status (runtime (fst (closing_sell mid tick e))) = error_status (runtime e)"
  by (simp add: closing_sell_def Let_def)

lemma err_hedge_buy: "error_status (runtime (fst (hedge_buy_check env tick e))) = error_status (runtime e)"
  by (simp add: hedge_buy_check_def hedge_sell_fresh_def hedge_sell_augment_def Let_def)

lemma err_hedge_sell: "error_status (runtime (fst (hedge_sell_check env tick e))) = error_status (runtime e)"
  by (simp add: hedge_sell_check_def hedge_buy_fresh_def hedge_buy_augment_def Let_def)

lemma err_tp_buy: "error_status (runtime (fst (tp_buy tick e))) = error_status (runtime e)"
  by (simp add: tp_buy_def)

lemma err_tp_sell: "error_status (runtime (fst (tp_sell tick e))) = error_status (runtime e)"
  by (simp add: tp_sell_def)

lemma err_external_buy: "error_status (runtime (external_close_buy env mid tick e)) = error_status (runtime e)"
  by (simp add: external_close_buy_def Let_def)

lemma err_external_sell: "error_status (runtime (external_close_sell env mid tick e)) = error_status (runtime e)"
  by (simp add: external_close_sell_def Let_def)

lemma err_accumulate_buy: "error_status (runtime (fst (accumulate_buy env tick e))) = error_status (runtime e)"
  by (simp add: accumulate_buy_def Let_def)

lemma err_accumulate_sell: "error_status (runtime (fst (accumulate_sell env tick e))) = error_status (runtime e)"
  by (simp add: accumulate_sell_def Let_def)

lemmas err_stages = err_pending err_closing_buy err_closing_sell err_hedge_buy err_hedge_sell
  err_tp_buy err_tp_sell err_external_buy err_external_sell err_accumulate_buy err_accumulate_sell

lemma err_decide: "error_status (runtime (fst (decide env tick e))) = error_status (runtime e)"
  by (simp add: decide_def next_stage_def Let_def err_stages split: option.splits)

lemma upd_fields:
  "buy_on (update_exec_stats stamp tick rt) = buy_on rt"
  "sell_on (update_exec_stats stamp tick rt) = sell_on rt"
  "cyclic_on (update_exec_stats stamp tick rt) = cyclic_on rt"
  "buy_id (update_exec_stats stamp tick rt) = buy_id rt"
  "sell_id (update_exec_stats stamp tick rt) = sell_id rt"
  "buy_is_closing (update_exec_stats stamp tick rt) = buy_is_closing rt"
  "sell_is_closing (update_exec_stats stamp tick rt) = sell_is_closing rt"
  "buy_hedge_triggered (update_exec_stats stamp tick rt) = buy_hedge_triggered rt"
  "sell_hedge_triggered (update_exec_stats stamp tick rt) = sell_hedge_triggered rt"
  "buy_waiting_limit (update_exec_stats stamp tick rt) = buy_waiting_limit rt"
  "sell_waiting_limit (update_exec_stats stamp tick rt) = sell_waiting_limit rt"
  "buy_start_ref (update_exec_stats stamp tick rt) = buy_start_ref rt"
  "sell_start_ref (update_exec_stats stamp tick rt) = sell_start_ref rt"
  "pending_actions (update_exec_stats stamp tick rt) = pending_actions rt"
  "buy_last_order_sent_ts (update_exec_stats stamp tick rt) = buy_last_order_sent_ts rt"
  "sell_last_order_sent_ts (update_exec_stats stamp tick rt) = sell_last_order_sent_ts rt"
  by (simp_all add: update_exec_stats_def split: sum.splits)

lemma reconciled_fields:
  "buy_on (runtime (reconciled env tick e)) = buy_on (runtime e)"
  "sell_on (runtime (reconciled env tick e)) = sell_on (runtime e)"
  "cyclic_on (runtime (reconciled env tick e)) = cyclic_on (runtime e)"
  "buy_id (runtime (reconciled env tick e)) = buy_id (runtime e)"
  "sell_id (runtime (reconciled env tick e)) = sell_id (runtime e)"
  "buy_is_closing (runtime (reconciled env tick e)) = buy_is_closing (runtime e)"
  "sell_is_closing (runtime (reconciled env tick e)) = sell_is_closing (runtime e)"
  "buy_hedge_triggered (runtime (reconciled env tick e)) = buy_hedge_triggered (runtime e)"
  "sell_hedge_triggered (runtime (reconciled env tick e)) = sell_hedge_triggered (runtime e)"
  "buy_waiting_limit (runtime (reconciled env tick e)) = buy_waiting_limit (runtime e)"
  "sell_waiting_limit (runtime (reconciled env tick e)) = sell_waiting_limit (runtime e)"
  "buy_start_ref (runtime (reconciled env tick e)) = buy_start_ref (runtime e)"
  "sell_start_ref (runtime (reconciled env tick e)) = sell_start_ref (runtime e)"
  "pending_actions (runtime (reconciled env tick e)) = pending_actions (runtime e)"
  "buy_last_order_sent_ts (runtime (reconciled env tick e)) = buy_last_order_sent_ts (runtime e)"
  "sell_last_order_sent_ts (runtime (reconciled env tick e)) = sell_last_order_sent_ts (runtime e)"
  "settings (reconciled env tick e) = settings e"
  by (simp_all add: reconciled_def market_update_def Let_def upd_fields)

subsection \<open>Stages that fall through, stages that fire\<close>

lemma next_stage_None: "next_stage (e, None) f = f e"
  by (simp add: next_stage_def)

lemma next_stage_Some: "next_stage (e, Some a) f = (e, Some a)"
  by (simp add: next_stage_def)

lemma handle_tick_run:
  "error_status (runtime e) = [] \<Longrightarrow> error_status (runtime (reconciled env tick e)) = [] \<Longrightarrow>
   decide env tick (reconciled env tick e) = (e3, r) \<Longrightarrow>
   handle_tick env tick e = (e3, case r of Some a \<Rightarrow> a | None \<Rightarrow> WAIT None)"
  by (simp add: handle_tick_def Let_def split: option.splits)

lemma pending_skip: "pending_actions (runtime e) = [] \<Longrightarrow> pending_stage e = (e, None)"
  by (simp add: pending_stage_def)

lemma closing_buy_skip: "\<not> buy_is_closing (runtime e) \<Longrightarrow> closing_buy mid tick e = (e, None)"
  by (simp add: closing_buy_def)

lemma closing_sell_skip: "\<not> sell_is_closing (runtime e) \<Longrightarrow> closing_sell mid tick e = (e, None)"
  by (simp add: closing_sell_def)

lemma hedge_buy_skip:
  "\<not> buy_on (runtime e) \<Longrightarrow> hedge_buy_check env tick e = (e, None)"
  "buy_id (runtime e) = [] \<Longrightarrow> hedge_buy_check env tick e = (e, None)"
  "buy_hedge_triggered (runtime e) \<Longrightarrow> hedge_buy_check env tick e = (e, None)"
  "buy_hedge_value (settings e) \<le> 0 \<Longrightarrow> hedge_buy_check env tick e = (e, None)"
  "buy_is_closing (runtime e) \<Longrightarrow> hedge_buy_check env tick e = (e, None)"
  "session_positions tick (buy_id (runtime e)) = [] \<Longrightarrow>
     hedge_buy_check env tick e = (e, None)"
  by (simp_all add: hedge_buy_check_def Let_def)

lemma hedge_sell_skip:
  "\<not> sell_on (runtime e) \<Longrightarrow> hedge_sell_check env tick e = (e, None)"
  "sell_id (runtime e) = [] \<Longrightarrow> hedge_sell_check env tick e = (e, None)"
  "sell_hedge_triggered (runtime e) \<Longrightarrow> hedge_sell_check env tick e = (e, None)"
  "sell_hedge_value (settings e) \<le> 0 \<Longrightarrow> hedge_sell_check env tick e = (e, None)"
  "sell_is_closing (runtime e) \<Longrightarrow> hedge_sell_check env tick e = (e, None)"
  "session_positions tick (sell_id (runtime e)) = [] \<Longrightarrow>
     hedge_sell_check env tick e = (e, None)"
  by (simp_all add: hedge_sell_check_def Let_def)

lemma tp_buy_skip:
  "buy_id (runtime e) = [] \<Longrightarrow> tp_buy tick e = (e, None)"
  "buy_tp_value (settings e) \<le> 0 \<Longrightarrow> tp_buy tick e = (e, None)"
  by (simp_all add: tp_buy_def check_tp_buy_def)

lemma tp_sell_skip:
  "sell_id (runtime e) = [] \<Longrightarrow> tp_sell tick e = (e, None)"
  "sell_tp_value (settings e) \<le> 0 \<Longrightarrow> tp_sell tick e = (e, None)"
  by (simp_all add: tp_sell_def check_tp_sell_def)

lemma external_close_buy_skip:
  "buy_id (runtime e) = [] \<Longrightarrow> external_close_buy env mid tick e = e"
  "buy_exec_map (runtime e) = [] \<Longrightarrow> external_close_buy env mid tick e = e"
  "buy_is_closing (runtime e) \<Longrightarrow> external_close_buy env mid tick e = e"
  "now_ts env - buy_last_order_sent_ts (runtime e) < 5 \<Longrightarrow> external_close_buy env mid tick e = e"
  "count_active_trades tick (buy_id (runtime e)) \<noteq> 0 \<Longrightarrow> external_close_buy env mid tick e = e"
  by (simp_all add: external_close_buy_def Let_def EXTERNAL_CLOSE_GRACE_PERIOD_def)

lemma external_close_sell_skip:
  "sell_id (runtime e) = [] \<Longrightarrow> external_close_sell env mid tick e = e"
  "sell_exec_map (runtime e) = [] \<Longrightarrow> external_close_sell env mid tick e = e"
  "sell_is_closing (runtime e) \<Longrightarrow> external_close_sell env mid tick e = e"
  "now_ts env - sell_last_order_sent_ts (runtime e) < 5 \<Longrightarrow> external_close_sell env mid tick e = e"
  "count_active_trades tick (sell_id (runtime e)) \<noteq> 0 \<Longrightarrow> external_close_sell env mid tick e = e"
  by (simp_all add: external_close_sell_def Let_def EXTERNAL_CLOSE_GRACE_PERIOD_def)

lemma external_close_buy_fire:
  "buy_id (runtime e) \<noteq> [] \<Longrightarrow> buy_exec_map (runtime e) \<noteq> [] \<Longrightarrow>
   \<not> buy_is_closing (runtime e) \<Longrightarrow> now_ts env - buy_last_order_sent_ts (runtime e) \<ge> 5 \<Longrightarrow>
   count_active_trades tick (buy_id (runtime e)) = 0 \<Longrightarrow>
   external_close_buy env mid tick e =
     (if cyclic_on (runtime e)
      then e\<lparr>runtime := (runtime e)\<lparr>buy_id := [], buy_exec_map := [], buy_start_ref := mid,
                                      buy_hedge_triggered := False\<rparr>\<rparr>
      else e\<lparr>runtime := (runtime e)\<lparr>buy_on := False, buy_id := [], buy_exec_map := [],
                                      buy_hedge_triggered := False\<rparr>\<rparr>)"
  by (simp add: external_close_buy_def Let_def EXTERNAL_CLOSE_GRACE_PERIOD_def)

lemma external_close_sell_fire:
  "sell_id (runtime e) \<noteq> [] \<Longrightarrow> sell_exec_map (runtime e) \<noteq> [] \<Longrightarrow>
   \<not> sell_is_closing (runtime e) \<Longrightarrow> now_ts env - sell_last_order_sent_ts (runtime e) \<ge> 5 \<Longrightarrow>
   count_active_trades tick (sell_id (runtime e)) = 0 \<Longrightarrow>
   external_close_sell env mid tick e =
     (if cyclic_on (runtime e)
      then e\<lparr>runtime := (runtime e)\<lparr>sell_id := [], sell_exec_map := [], sell_start_ref := mid,
                                      sell_hedge_triggered := False\<rparr>\<rparr>
      else e\<lparr>runtime := (runtime e)\<lparr>sell_on := False, sell_id := [], sell_exec_map := [],
                                      sell_hedge_triggered := False\<rparr>\<rparr>)"
  by (simp add: external_close_sell_def Let_def EXTERNAL_CLOSE_GRACE_PERIOD_def)

lemma accumulate_buy_skip:
  "\<not> buy_on (runtime e) \<Longrightarrow> accumulate_buy env tick e = (e, None)"
  "buy_is_closing (runtime e) \<Longrightarrow> accumulate_buy env tick e = (e, None)"
  "buy_hedge_triggered (runtime e) \<Longrightarrow> accumulate_buy env tick e = (e, None)"
  by (simp_all add: accumulate_buy_def Let_def)

lemma accumulate_sell_skip:
  "\<not> sell_on (runtime e) \<Longrightarrow> accumulate_sell env tick e = (e, None)"
  "sell_is_closing (runtime e) \<Longrightarrow> accumulate_sell env tick e = (e, None)"
  "sell_hedge_triggered (runtime e) \<Longrightarrow> accumulate_sell env tick e = (e, None)"
  by (simp_all add: accumulate_sell_def Let_def)

lemmas stage_skips = next_stage_None next_stage_Some pending_skip closing_buy_skip
  closing_sell_skip hedge_buy_skip hedge_sell_skip tp_buy_skip tp_sell_skip
  external_close_buy_skip external_close_sell_skip accumulate_buy_skip accumulate_sell_skip

subsection \<open>Error gate\<close>

text \<open>
  C3. A tick that arrives while \<open>error_status\<close> is non-empty is answered WAIT with the
  error and returns the engine as it was (runtime, settings, price history and
  timestamp). A tick whose reconciliation sets \<open>error_status\<close> is answered WAIT with that
  error. No later stage writes \<open>error_status\<close>: whenever it is non-empty after a tick,
  the reply of that tick is WAIT with the error.
\<close>

theorem error_gate:
  "(error_status (runtime e) \<noteq> [] \<longrightarrow>
      handle_tick env tick e = (e, WAIT (Some (error_status (runtime e))))) \<and>
   (error_status (runtime e) = [] \<and> error_status (runtime (reconciled env tick e)) \<noteq> [] \<longrightarrow>
      handle_tick env tick e
        = (reconciled env tick e, WAIT (Some (error_status (runtime (reconciled env tick e)))))) \<and>
   (error_status (runtime (fst (handle_tick env tick e))) \<noteq> [] \<longrightarrow>
      snd (handle_tick env tick e)
        = WAIT (Some (error_status (runtime (fst (handle_tick env tick e))))))"
proof -
  have later: "error_status (runtime (fst (decide env tick (reconciled env tick e))))
      = error_status (runtime (reconciled env tick e))"
    by (rule err_decide)
  show ?thesis
    using later
    by (auto simp add: handle_tick_def Let_def split: prod.splits option.splits)
qed

lemma c3_conflict:
  "error_status (runtime (reconciled (env_at 10) (c1_tick [c1_upper]) c3_engine))
     = ''CRITICAL: Identity Conflict. Unknown Buy trade 13 detected.''"
  by (simp add: reconciled_def market_update_def Let_def c3_engine_def initial_engine_def
      c1_upper_def c1_tick_def c1_runtime_def default_runtime_def
      update_exec_stats_def TRADE_ID_PATTERN_match_def strip_side_def is_hex_def is_digit_def
      strip_newline_def conflict_buy_def str_int_def str_nat.simps digit_char_def)

theorem error_gate_witness:
  "error_status (runtime c3_engine) = [] \<and>
   handle_tick (env_at 10) (c1_tick [c1_upper]) c3_engine
     = (reconciled (env_at 10) (c1_tick [c1_upper]) c3_engine,
        WAIT (Some ''CRITICAL: Identity Conflict. Unknown Buy trade 13 detected.'')) \<and>
   handle_tick (env_at 11) (c1_tick []) (reconciled (env_at 10) (c1_tick [c1_upper]) c3_engine)
     = (reconciled (env_at 10) (c1_tick [c1_upper]) c3_engine,
        WAIT (Some ''CRITICAL: Identity Conflict. Unknown Buy trade 13 detected.''))"
proof -
  have clean: "error_status (runtime c3_engine) = []"
    by (simp add: c3_engine_def c1_runtime_def default_runtime_def)
  show ?thesis
    using clean c3_conflict
      error_gate [of c3_engine "env_at 10" "c1_tick [c1_upper]"]
      error_gate [of "reconciled (env_at 10) (c1_tick [c1_upper]) c3_engine" "env_at 11" "c1_tick []"]
    by simp
qed

subsection \<open>Emergency close\<close>

text \<open>
  C9, as amended. After an emergency-close command on an engine whose queue held no
  earlier entry, the next tick that raises no identity conflict pops the entry and emits
  CLOSE_ALL with the comment \<open>server\<close>.
\<close>

theorem emergency_close_tag:
  assumes "pending_actions (runtime e) = []"
    and "error_status (runtime (reconciled env tick (control b s c (Some True) e))) = []"
  shows "snd (handle_tick env tick (control b s c (Some True) e)) = CLOSE_ALL ''server'' \<and>
         pending_actions (runtime (fst (handle_tick env tick (control b s c (Some True) e)))) = []"
proof -
  let ?e1 = "control b s c (Some True) e"
  let ?e2 = "reconciled env tick ?e1"
  have gate: "error_status (runtime ?e1) = []"
    by (simp add: control_def Let_def)
  have queue: "pending_actions (runtime ?e2) = [''CLOSE_ALL_EMERGENCY'']"
    using assms(1) by (simp add: reconciled_fields control_def Let_def)
  have popped: "pending_stage ?e2
      = (?e2\<lparr>runtime := (runtime ?e2)\<lparr>pending_actions := []\<rparr>\<rparr>, Some (CLOSE_ALL ''server''))"
    by (simp add: pending_stage_def queue)
  have "decide env tick ?e2
      = (?e2\<lparr>runtime := (runtime ?e2)\<lparr>pending_actions := []\<rparr>\<rparr>, Some (CLOSE_ALL ''server''))"
    by (simp add: decide_def Let_def next_stage_def popped)
  then show ?thesis
    using gate assms(2) by (simp add: handle_tick_def Let_def)
qed

theorem emergency_close_tag_witness:
  "snd (handle_tick (env_at 10) (c1_tick []) (control None None None (Some True) c6_engine))
     = CLOSE_ALL ''server''"
proof -
  have quiet: "error_status (runtime (reconciled (env_at 10) (c1_tick [])
      (control None None None (Some True) c6_engine))) = []"
    by (simp add: reconciled_def market_update_def update_exec_stats_def c1_tick_def Let_def
        control_def)
  have empty: "pending_actions (runtime c6_engine) = []"
    by (simp add: c6_engine_def default_runtime_def)
  show ?thesis
    using emergency_close_tag [OF empty quiet] by simp
qed

text \<open>
  C9 as the specification states it fails: the comment of the CLOSE_ALL that answers an
  emergency close is \<open>server\<close>, not \<open>CLOSE_ALL_EMERGENCY\<close>.
\<close>

theorem emergency_comment_counterexample:
  "snd (handle_tick (env_at 10) (c1_tick []) (control None None None (Some True) initial_engine))
     = CLOSE_ALL ''server'' \<and>
   snd (handle_tick (env_at 10) (c1_tick []) (control None None None (Some True) initial_engine))
     \<noteq> CLOSE_ALL ''CLOSE_ALL_EMERGENCY''"
  by (simp add: handle_tick_def reconciled_def market_update_def update_exec_stats_def
      c1_tick_def Let_def control_def initial_engine_def default_runtime_def decide_def
      next_stage_def pending_stage_def)

subsection \<open>External close\<close>

lemma c6_fields:
  "error_status (runtime c6_engine) = []"
  "pending_actions (runtime c6_engine) = []"
  "buy_is_closing (runtime c6_engine) = False"
  "sell_is_closing (runtime c6_engine) = False"
  "buy_on (runtime c6_engine) = True"
  "sell_on (runtime c6_engine) = False"
  "cyclic_on (runtime c6_engine) = False"
  "buy_id (runtime c6_engine) = ''buy_abcdef12''"
  "sell_id (runtime c6_engine) = []"
  "buy_hedge_triggered (runtime c6_engine) = False"
  "buy_start_ref (runtime c6_engine) = 100"
  "buy_last_order_sent_ts (runtime c6_engine) = 4"
  "buy_hedge_value (settings c6_engine) = 0"
  "buy_tp_value (settings c6_engine) = 0"
  by (simp_all add: c6_engine_def initial_engine_def default_runtime_def default_settings_def)

lemma c6_reconciled:
  "error_status (runtime (reconciled (env_at 10) (c1_tick []) c6_engine)) = []"
  "buy_exec_map (runtime (reconciled (env_at 10) (c1_tick []) c6_engine)) \<noteq> []"
  by (simp_all add: reconciled_def market_update_def update_exec_stats_def
      c1_tick_def Let_def c6_engine_def initial_engine_def default_runtime_def
      cumulate_def new_stats_def)

lemma c1_tick_count: "count_active_trades (c1_tick []) sid = 0"
  by (simp add: count_active_trades_def session_positions_def c1_tick_def)

lemma c6_decide:
  "decide (env_at 10) (c1_tick []) (reconciled (env_at 10) (c1_tick []) c6_engine)
     = ((reconciled (env_at 10) (c1_tick []) c6_engine)\<lparr>runtime :=
          (runtime (reconciled (env_at 10) (c1_tick []) c6_engine))\<lparr>
             buy_on := False, buy_id := [], buy_exec_map := [],
             buy_hedge_triggered := False\<rparr>\<rparr>, None)"
proof -
  let ?E = "reconciled (env_at 10) (c1_tick []) c6_engine"
  have now: "now_ts (env_at 10) = 10" by (simp add: env_at_def)
  have ext: "external_close_buy (env_at 10) mid (c1_tick []) ?E
      = ?E\<lparr>runtime := (runtime ?E)\<lparr>buy_on := False, buy_id := [], buy_exec_map := [],
                                      buy_hedge_triggered := False\<rparr>\<rparr>" for mid
    by (simp add: external_close_buy_fire reconciled_fields c6_fields c6_reconciled c1_tick_count now)
  show ?thesis
    by (simp add: decide_def Let_def stage_skips reconciled_fields c6_fields ext)
qed


lemma closing_buy_confirm:
  "buy_is_closing (runtime e) \<Longrightarrow> count_active_trades tick (buy_id (runtime e)) = 0 \<Longrightarrow>
   \<not> cyclic_on (runtime e) \<Longrightarrow>
   closing_buy mid tick e
     = (e\<lparr>runtime := (runtime e)\<lparr>buy_is_closing := False, buy_exec_map := [],
                                   buy_hedge_triggered := False, buy_on := False,
                                   buy_id := [], buy_start_ref := 0\<rparr>\<rparr>, Some (WAIT None))"
  by (simp add: closing_buy_def Let_def)

lemma c6_closing_tick:
  "buy_start_ref (runtime (fst (handle_tick (env_at 10) (c1_tick []) c6_closing))) = 0"
proof -
  let ?E = "reconciled (env_at 10) (c1_tick []) c6_closing"
  have quiet: "error_status (runtime c6_closing) = []" "error_status (runtime ?E) = []"
    by (simp_all add: reconciled_def market_update_def update_exec_stats_def c1_tick_def Let_def
        c6_closing_def c6_fields)
  have flags: "pending_actions (runtime ?E) = []" "buy_is_closing (runtime ?E)"
    "\<not> cyclic_on (runtime ?E)"
    by (simp_all add: reconciled_fields c6_closing_def c6_fields)
  have "decide (env_at 10) (c1_tick []) ?E
      = (?E\<lparr>runtime := (runtime ?E)\<lparr>buy_is_closing := False, buy_exec_map := [],
                                   buy_hedge_triggered := False, buy_on := False,
                                   buy_id := [], buy_start_ref := 0\<rparr>\<rparr>, Some (WAIT None))"
    by (simp add: decide_def Let_def stage_skips flags closing_buy_confirm c1_tick_count)
  from handle_tick_run [OF quiet this] show ?thesis by simp
qed

text \<open>
  C6. The claim asks the non-cyclic reset of an external close to zero the anchor, as the
  non-cyclic reset of a confirmed closure does. The external-close branch of the program
  clears the session id, the exec_map, the hedge latch and the switch, emits no
  CLOSE_ALL, and leaves the anchor at its old value: here 100 after the tick. The same
  engine in its closing phase, on the same tick, ends with the anchor at 0.
\<close>

theorem external_close_anchor_kept:
  "snd (handle_tick (env_at 10) (c1_tick []) c6_engine) = WAIT None \<and>
   buy_id (runtime (fst (handle_tick (env_at 10) (c1_tick []) c6_engine))) = [] \<and>
   buy_exec_map (runtime (fst (handle_tick (env_at 10) (c1_tick []) c6_engine))) = [] \<and>
   buy_hedge_triggered (runtime (fst (handle_tick (env_at 10) (c1_tick []) c6_engine))) = False \<and>
   buy_on (runtime (fst (handle_tick (env_at 10) (c1_tick []) c6_engine))) = False \<and>
   buy_start_ref (runtime (fst (handle_tick (env_at 10) (c1_tick []) c6_engine))) = 100 \<and>
   buy_start_ref (runtime (fst (handle_tick (env_at 10) (c1_tick []) c6_closing))) = 0"
  using handle_tick_run [OF c6_fields(1) c6_reconciled(1) c6_decide]
  by (simp add: reconciled_fields c6_fields c6_closing_tick)

subsection \<open>Hedge trigger, scenario A\<close>













subsection \<open>Settings update\<close>

lemma rows_dict_index: "rows_dict cur i = Some old \<Longrightarrow> index old = i"
  by (auto simp add: rows_dict_def dest!: map_of_SomeD)

lemma merge_rows_keeps:
  "nr \<in> set new \<Longrightarrow> 0 < dollar nr \<Longrightarrow> 0 < lots nr \<Longrightarrow>
   map_of m (index nr) = Some x \<Longrightarrow> rows_dict cur (index nr) = Some old \<Longrightarrow>
   \<lparr>index = index nr, dollar = dollar old, lots = lots old, alert = alert nr\<rparr>
     \<in> set (merge_rows m cur new)"
proof (induction new)
  case Nil
  then show ?case by simp
next
  case (Cons a new)
  show ?case
  proof (cases "nr = a")
    case True
    with Cons.prems rows_dict_index [of cur "index nr" old] show ?thesis by simp
  next
    case False
    with Cons have "\<lparr>index = index nr, dollar = dollar old, lots = lots old, alert = alert nr\<rparr>
        \<in> set (merge_rows m cur new)" by simp
    then show ?thesis by (simp split: option.splits)
  qed
qed

lemma merge_rows_locked:
  "r \<in> set (merge_rows m cur new) \<Longrightarrow>
   map_of m (index r) = Some x \<Longrightarrow> rows_dict cur (index r) = Some old \<Longrightarrow>
   dollar r = dollar old \<and> lots r = lots old"
proof (induction new)
  case Nil
  then show ?case by simp
next
  case (Cons a new)
  show ?case
  proof (cases "dollar a \<le> 0 \<or> lots a \<le> 0")
    case True
    with Cons show ?thesis by simp
  next
    case valid: False
    show ?thesis
    proof (cases "r \<in> set (merge_rows m cur new)")
      case True
      with Cons show ?thesis by simp
    next
      case False
      show ?thesis
      proof (cases "map_of m (index a)")
        case None
        with valid False Cons.prems show ?thesis by auto
      next
        case (Some y)
        show ?thesis
        proof (cases "rows_dict cur (index a)")
          case None
          with valid False Some Cons.prems show ?thesis by auto
        next
          case stored: (Some old')
          from valid False Some stored Cons.prems(1)
          have r: "r = \<lparr>index = index old', dollar = dollar old', lots = lots old', alert = alert a\<rparr>"
            by simp
          from rows_dict_index [OF stored] have "index old' = index a" .
          with r have "index r = index a" by simp
          with stored Cons.prems(3) have "old = old'" by simp
          with r show ?thesis by simp
        qed
      qed
    qed
  qed
qed

text \<open>
  C5, as amended. After a settings update that is accepted: for every row of the new
  table with positive gap and volume whose index is in the side's exec_map and in the
  current configuration, the resulting table holds the row with that index, the stored
  gap and volume (those of the last row of that index in the current table) and the
  new row's alert flag; and every row of the resulting table whose index is in the
  exec_map and in the current configuration carries the stored gap and volume. The
  runtime state, the exec_map with it, is untouched.
\<close>

theorem settings_update_keeps_executed_layers:
  assumes "update_settings new e = Inr e'"
  shows
    "(\<forall>nr \<in> set (rows_buy new). \<forall>x old.
        0 < dollar nr \<and> 0 < lots nr \<and>
        map_of (buy_exec_map (runtime e)) (index nr) = Some x \<and>
        rows_dict (rows_buy (settings e)) (index nr) = Some old \<longrightarrow>
        \<lparr>index = index nr, dollar = dollar old, lots = lots old, alert = alert nr\<rparr>
          \<in> set (rows_buy (settings e'))) \<and>
     (\<forall>nr \<in> set (rows_sell new). \<forall>x old.
        0 < dollar nr \<and> 0 < lots nr \<and>
        map_of (sell_exec_map (runtime e)) (index nr) = Some x \<and>
        rows_dict (rows_sell (settings e)) (index nr) = Some old \<longrightarrow>
        \<lparr>index = index nr, dollar = dollar old, lots = lots old, alert = alert nr\<rparr>
          \<in> set (rows_sell (settings e'))) \<and>
     (\<forall>r \<in> set (rows_buy (settings e')). \<forall>x old.
        map_of (buy_exec_map (runtime e)) (index r) = Some x \<and>
        rows_dict (rows_buy (settings e)) (index r) = Some old \<longrightarrow>
        dollar r = dollar old \<and> lots r = lots old) \<and>
     (\<forall>r \<in> set (rows_sell (settings e')). \<forall>x old.
        map_of (sell_exec_map (runtime e)) (index r) = Some x \<and>
        rows_dict (rows_sell (settings e)) (index r) = Some old \<longrightarrow>
        dollar r = dollar old \<and> lots r = lots old) \<and>
     runtime e' = runtime e"
proof -
  from assms have e': "e' = e\<lparr>settings :=
               \<lparr>buy_limit_price = buy_limit_price new,
                sell_limit_price = sell_limit_price new,
                buy_tp_type = buy_tp_type new,
                buy_tp_value = buy_tp_value new,
                sell_tp_type = sell_tp_type new,
                sell_tp_value = sell_tp_value new,
                buy_hedge_value = buy_hedge_value new,
                sell_hedge_value = sell_hedge_value new,
                rows_buy = merge_rows (buy_exec_map (runtime e)) (rows_buy (settings e)) (rows_buy new),
                rows_sell = merge_rows (sell_exec_map (runtime e)) (rows_sell (settings e)) (rows_sell new)\<rparr>\<rparr>"
    by (simp add: update_settings_def split: if_splits)
  have rb: "rows_buy (settings e')
      = merge_rows (buy_exec_map (runtime e)) (rows_buy (settings e)) (rows_buy new)"
    and rs: "rows_sell (settings e')
      = merge_rows (sell_exec_map (runtime e)) (rows_sell (settings e)) (rows_sell new)"
    and rt: "runtime e' = runtime e"
    by (simp_all add: e')
  show ?thesis
    unfolding rb rs rt
    by (intro conjI ballI allI impI refl)
      (blast intro: merge_rows_keeps dest: merge_rows_locked)+
qed

theorem settings_update_keeps_executed_layers_witness:
  "update_settings c5_new c5_both
     = Inr (c5_both\<lparr>settings := default_settings\<lparr>
              rows_buy := [\<lparr>index = 0, dollar = 1, lots = 1/10, alert = True\<rparr>,
                           \<lparr>index = 1, dollar = 2, lots = 3/10, alert = False\<rparr>],
              rows_sell := [\<lparr>index = 0, dollar = 2, lots = 3/10, alert = True\<rparr>]\<rparr>\<rparr>) \<and>
   \<lparr>index = 0, dollar = 1, lots = 1/10, alert = True\<rparr>
     \<in> set (rows_buy (settings (c5_both\<lparr>settings := default_settings\<lparr>
              rows_buy := [\<lparr>index = 0, dollar = 1, lots = 1/10, alert = True\<rparr>,
                           \<lparr>index = 1, dollar = 2, lots = 3/10, alert = False\<rparr>],
              rows_sell := [\<lparr>index = 0, dollar = 2, lots = 3/10, alert = True\<rparr>]\<rparr>\<rparr>))) \<and>
   \<lparr>index = 0, dollar = 2, lots = 3/10, alert = True\<rparr>
     \<in> set (rows_sell (settings (c5_both\<lparr>settings := default_settings\<lparr>
              rows_buy := [\<lparr>index = 0, dollar = 1, lots = 1/10, alert = True\<rparr>,
                           \<lparr>index = 1, dollar = 2, lots = 3/10, alert = False\<rparr>],
              rows_sell := [\<lparr>index = 0, dollar = 2, lots = 3/10, alert = True\<rparr>]\<rparr>\<rparr>)))"
proof -
  let ?after = "c5_both\<lparr>settings := default_settings\<lparr>
              rows_buy := [\<lparr>index = 0, dollar = 1, lots = 1/10, alert = True\<rparr>,
                           \<lparr>index = 1, dollar = 2, lots = 3/10, alert = False\<rparr>],
              rows_sell := [\<lparr>index = 0, dollar = 2, lots = 3/10, alert = True\<rparr>]\<rparr>\<rparr>"
  have run: "update_settings c5_new c5_both = Inr ?after"
    by (simp add: update_settings_def c5_new_def c5_both_def c5_engine_def default_settings_def
        initial_engine_def default_runtime_def rows_dict_def)
  have stored: "rows_dict (rows_buy (settings c5_both)) 0
      = Some \<lparr>index = 0, dollar = 1, lots = 1/10, alert = False\<rparr>"
    "rows_dict (rows_sell (settings c5_both)) 0
      = Some \<lparr>index = 0, dollar = 2, lots = 3/10, alert = False\<rparr>"
    by (simp_all add: c5_both_def c5_engine_def initial_engine_def default_settings_def
        rows_dict_def)
  have executed:
    "map_of (buy_exec_map (runtime c5_both)) 0 = Some (new_stats 0 99 (1/10) 0 ''t0'')"
    "map_of (sell_exec_map (runtime c5_both)) 0 = Some (new_stats 0 102 (3/10) 0 ''t0'')"
    by (simp_all add: c5_both_def c5_engine_def initial_engine_def default_runtime_def)
  have submitted:
    "\<lparr>index = 0, dollar = 5, lots = 9/10, alert = True\<rparr> \<in> set (rows_buy c5_new)"
    "\<lparr>index = 0, dollar = 7, lots = 7/10, alert = True\<rparr> \<in> set (rows_sell c5_new)"
    by (simp_all add: c5_new_def default_settings_def)
  from settings_update_keeps_executed_layers [OF run] submitted stored executed
  have "\<lparr>index = 0, dollar = 1, lots = 1/10, alert = True\<rparr> \<in> set (rows_buy (settings ?after))"
    and "\<lparr>index = 0, dollar = 2, lots = 3/10, alert = True\<rparr> \<in> set (rows_sell (settings ?after))"
    by fastforce+
  with run show ?thesis by simp
qed

text \<open>
  C5 as the specification states it fails: a new row with a non-positive gap is dropped
  before the merge, also when its index is executed and present in the current
  configuration. Here layer 0 is executed and stored with gap 1; the update lists index
  0 with gap 0, and the resulting table has no row of index 0 any more.
\<close>

theorem filtered_executed_layer_counterexample:
  "map_of (buy_exec_map (runtime c5_engine)) 0 \<noteq> None \<and>
   rows_dict (rows_buy (settings c5_engine)) 0 \<noteq> None \<and>
   \<lparr>index = 0, dollar = 0, lots = 1/10, alert = True\<rparr> \<in> set (rows_buy c5_zero_gap) \<and>
   update_settings c5_zero_gap c5_engine
     = Inr (c5_engine\<lparr>settings := c5_zero_gap\<lparr>
              rows_buy := [\<lparr>index = 1, dollar = 2, lots = 3/10, alert = False\<rparr>]\<rparr>\<rparr>)"
  by (simp add: update_settings_def c5_zero_gap_def c5_engine_def default_settings_def
      initial_engine_def default_runtime_def rows_dict_def)


subsection \<open>The hedge latch and the session id\<close>

lemma get_hash_nonempty: "get_hash side u \<noteq> []"
  by (simp add: get_hash_def)

lemma inv_pending: "latch_inv e \<Longrightarrow> latch_inv (fst (pending_stage e))"
  by (simp add: latch_inv_def pending_stage_def split: list.splits)

lemma inv_closing_buy: "latch_inv e \<Longrightarrow> latch_inv (fst (closing_buy mid tick e))"
  by (simp add: latch_inv_def closing_buy_def Let_def)

lemma inv_closing_sell: "latch_inv e \<Longrightarrow> latch_inv (fst (closing_sell mid tick e))"
  by (simp add: latch_inv_def closing_sell_def Let_def)

lemma inv_hedge_buy: "latch_inv e \<Longrightarrow> latch_inv (fst (hedge_buy_check env tick e))"
  by (simp add: latch_inv_def hedge_buy_check_def hedge_sell_fresh_def hedge_sell_augment_def
      Let_def get_hash_nonempty)

lemma inv_hedge_sell: "latch_inv e \<Longrightarrow> latch_inv (fst (hedge_sell_check env tick e))"
  by (simp add: latch_inv_def hedge_sell_check_def hedge_buy_fresh_def hedge_buy_augment_def
      Let_def get_hash_nonempty)

lemma inv_tp_buy: "latch_inv e \<Longrightarrow> latch_inv (fst (tp_buy tick e))"
  by (simp add: latch_inv_def tp_buy_def)

lemma inv_tp_sell: "latch_inv e \<Longrightarrow> latch_inv (fst (tp_sell tick e))"
  by (simp add: latch_inv_def tp_sell_def)

lemma inv_external_buy: "latch_inv e \<Longrightarrow> latch_inv (external_close_buy env mid tick e)"
  by (simp add: latch_inv_def external_close_buy_def Let_def)

lemma inv_external_sell: "latch_inv e \<Longrightarrow> latch_inv (external_close_sell env mid tick e)"
  by (simp add: latch_inv_def external_close_sell_def Let_def)

lemma inv_accumulate_buy: "latch_inv e \<Longrightarrow> latch_inv (fst (accumulate_buy env tick e))"
  by (simp add: latch_inv_def accumulate_buy_def Let_def get_hash_nonempty)

lemma inv_accumulate_sell: "latch_inv e \<Longrightarrow> latch_inv (fst (accumulate_sell env tick e))"
  by (simp add: latch_inv_def accumulate_sell_def Let_def get_hash_nonempty)

lemma inv_next_stage:
  "latch_inv (fst r) \<Longrightarrow> (\<And>e. latch_inv e \<Longrightarrow> latch_inv (fst (f e))) \<Longrightarrow>
   latch_inv (fst (next_stage r f))"
  by (simp add: next_stage_def split: option.splits)

lemma inv_decide: "latch_inv e \<Longrightarrow> latch_inv (fst (decide env tick e))"
  unfolding decide_def Let_def
  by (intro inv_next_stage inv_pending inv_closing_buy inv_closing_sell inv_hedge_buy
      inv_hedge_sell inv_tp_buy inv_tp_sell inv_accumulate_buy inv_accumulate_sell
      inv_external_buy inv_external_sell)

lemma inv_reconciled: "latch_inv e \<Longrightarrow> latch_inv (reconciled env tick e)"
  by (simp add: latch_inv_def reconciled_fields)

lemma handle_tick_fst:
  "fst (handle_tick env tick e) =
     (if error_status (runtime e) \<noteq> [] then e
      else if error_status (runtime (reconciled env tick e)) \<noteq> [] then reconciled env tick e
      else fst (decide env tick (reconciled env tick e)))"
  by (simp add: handle_tick_def Let_def split: prod.splits option.splits)

lemma inv_handle_tick: "latch_inv e \<Longrightarrow> latch_inv (fst (handle_tick env tick e))"
  by (simp add: handle_tick_fst inv_reconciled inv_decide)

lemma inv_control: "latch_inv e \<Longrightarrow> latch_inv (control b s c em e)"
  by (simp add: latch_inv_def control_def Let_def split: option.splits)

lemma inv_update_settings: "latch_inv e \<Longrightarrow> update_settings new e = Inr e' \<Longrightarrow> latch_inv e'"
  by (auto simp add: latch_inv_def update_settings_def split: if_splits)

lemma inv_reachable: "reachable e \<Longrightarrow> latch_inv e"
proof (induction rule: reachable.induct)
  case reach_init
  show ?case by (simp add: latch_inv_def initial_engine_def default_runtime_def)
next
  case (reach_tick e env tick)
  then show ?case by (simp add: inv_handle_tick)
next
  case (reach_settings e new e')
  then show ?case by (blast intro: inv_update_settings)
next
  case (reach_control e b s c em)
  then show ?case by (simp add: inv_control)
qed

text \<open>
  C10. In every state the engine reaches from its initial state by ticks and commands,
  a side whose session id is the empty string has its \<open>hedge_triggered\<close> flag false.
\<close>

theorem hedge_latch_needs_session:
  "reachable e \<Longrightarrow>
   (buy_id (runtime e) = [] \<longrightarrow> \<not> buy_hedge_triggered (runtime e)) \<and>
   (sell_id (runtime e) = [] \<longrightarrow> \<not> sell_hedge_triggered (runtime e))"
  using inv_reachable [of e] by (simp add: latch_inv_def)


lemma c10_fields:
  "error_status (runtime c10_started) = []"
  "pending_actions (runtime c10_started) = []"
  "buy_is_closing (runtime c10_started) = False"
  "sell_is_closing (runtime c10_started) = False"
  "buy_on (runtime c10_started) = True"
  "sell_on (runtime c10_started) = False"
  "buy_id (runtime c10_started) = []"
  "sell_id (runtime c10_started) = []"
  "buy_hedge_triggered (runtime c10_started) = False"
  "sell_hedge_triggered (runtime c10_started) = False"
  "settings c10_started = default_settings"
  by (simp_all add: c10_started_def control_def initial_engine_def default_runtime_def Let_def)

lemma c10_reconciled_ok:
  "error_status (runtime (reconciled (env_at 10) (c1_tick []) c10_started)) = []"
  by (simp add: reconciled_def market_update_def Let_def update_exec_stats_def c1_tick_def
      c10_fields)

lemma c10_decide:
  "decide (env_at 10) (c1_tick []) (reconciled (env_at 10) (c1_tick []) c10_started)
     = (fst (accumulate_buy (env_at 10) (c1_tick [])
               (reconciled (env_at 10) (c1_tick []) c10_started)), None)"
proof -
  let ?E = "reconciled (env_at 10) (c1_tick []) c10_started"
  have acc: "snd (accumulate_buy (env_at 10) (c1_tick []) ?E) = None"
    by (simp add: accumulate_buy_def Let_def reconciled_fields c10_fields default_settings_def)
  have sell_off: "\<not> sell_on (runtime (fst (accumulate_buy (env_at 10) (c1_tick []) ?E)))"
    by (simp add: accumulate_buy_def Let_def reconciled_fields c10_fields default_settings_def)
  show ?thesis
    by (simp add: decide_def Let_def stage_skips reconciled_fields c10_fields next_stage_def
        acc sell_off)
qed

theorem hedge_latch_needs_session_witness:
  "reachable (fst (handle_tick (env_at 10) (c1_tick []) c10_started)) \<and>
   buy_id (runtime (fst (handle_tick (env_at 10) (c1_tick []) c10_started))) = ''buy_01234567'' \<and>
   sell_id (runtime (fst (handle_tick (env_at 10) (c1_tick []) c10_started))) = [] \<and>
   \<not> sell_hedge_triggered (runtime (fst (handle_tick (env_at 10) (c1_tick []) c10_started)))"
proof -
  let ?E = "reconciled (env_at 10) (c1_tick []) c10_started"
  have reach: "reachable (fst (handle_tick (env_at 10) (c1_tick []) c10_started))"
    unfolding c10_started_def by (intro reach_tick reach_control reach_init)
  have run: "fst (handle_tick (env_at 10) (c1_tick []) c10_started)
      = fst (accumulate_buy (env_at 10) (c1_tick []) ?E)"
    by (simp add: handle_tick_fst c10_fields c10_reconciled_ok c10_decide)
  have ids: "buy_id (runtime (fst (accumulate_buy (env_at 10) (c1_tick []) ?E))) = ''buy_01234567''"
    "sell_id (runtime (fst (accumulate_buy (env_at 10) (c1_tick []) ?E))) = []"
    by (simp_all add: accumulate_buy_def Let_def reconciled_fields c10_fields default_settings_def
        get_hash_def env_at_def)
  have ids':
    "buy_id (runtime (fst (handle_tick (env_at 10) (c1_tick []) c10_started))) = ''buy_01234567''"
    "sell_id (runtime (fst (handle_tick (env_at 10) (c1_tick []) c10_started))) = []"
    by (simp_all add: run ids)
  from hedge_latch_needs_session [OF reach] ids' reach show ?thesis
    by simp
qed

subsection \<open>Replaying a tick\<close>

lemma digit_val_char: "d < 10 \<Longrightarrow> digit_val (digit_char d) = int d"
proof -
  assume "d < 10"
  then have "d \<in> {0, 1, 2, 3, 4, 5, 6, 7, 8, 9}" by auto
  then show ?thesis
    by (auto simp add: digit_val_def digit_char_def)
qed

lemma digit_char_is_digit: "d < 10 \<Longrightarrow> is_digit (digit_char d)"
proof -
  assume "d < 10"
  then have "d \<in> {0, 1, 2, 3, 4, 5, 6, 7, 8, 9}" by auto
  then show ?thesis
    by (auto simp add: is_digit_def digit_char_def)
qed

lemma str_nat_value: "foldl (\<lambda>a c. 10 * a + digit_val c) 0 (str_nat n) = int n"
proof (induction n rule: str_nat.induct)
  case (1 n)
  show ?case
  proof (cases "n < 10")
    case True
    then show ?thesis by (subst str_nat.simps) (simp add: digit_val_char)
  next
    case False
    with 1 have "foldl (\<lambda>a c. 10 * a + digit_val c) 0 (str_nat (n div 10)) = int (n div 10)"
      by simp
    with False show ?thesis
      by (subst str_nat.simps) (simp add: digit_val_char zdiv_int zmod_int)
  qed
qed

lemma str_nat_digits: "list_all is_digit (str_nat n)"
proof (induction n rule: str_nat.induct)
  case (1 n)
  show ?case
  proof (cases "n < 10")
    case True
    then show ?thesis by (subst str_nat.simps) (simp add: digit_char_is_digit)
  next
    case False
    with 1 show ?thesis
      by (subst str_nat.simps) (simp add: digit_char_is_digit)
  qed
qed

lemma str_nat_inj: "str_nat a = str_nat b \<Longrightarrow> a = b"
proof -
  assume eq: "str_nat a = str_nat b"
  have "int a = foldl (\<lambda>a c. 10 * a + digit_val c) 0 (str_nat a)"
    by (rule str_nat_value [symmetric])
  also have "\<dots> = int b"
    unfolding eq by (rule str_nat_value)
  finally show ?thesis by simp
qed

lemma str_nat_no_sign: "CHR ''-'' # s \<noteq> str_nat n"
proof
  assume eq: "CHR ''-'' # s = str_nat n"
  have "list_all is_digit (CHR ''-'' # s)"
    unfolding eq by (rule str_nat_digits)
  then show False by (simp add: is_digit_def)
qed

lemma str_int_inj: "str_int a = str_int b \<Longrightarrow> a = b"
  using str_nat_no_sign [of "str_nat (nat (- a))" "nat b"]
    str_nat_no_sign [of "str_nat (nat (- b))" "nat a"]
    str_nat_inj [of "nat (- a)" "nat (- b)"] str_nat_inj [of "nat a" "nat b"]
  by (auto simp add: str_int_def split: if_splits)

lemma str_int_eq [simp]: "(str_int a = str_int b) = (a = b)"
  using str_int_inj [of a b] by auto























































































subsection \<open>External close: the grace period\<close>































end
